theory Spec2Isabelle
  imports Complex_Main
begin

section \<open>Data model\<close>

text \<open>
  Modelled from the spec: the type declarations of \<^verbatim>\<open>types.ts\<close> (TeamSide, Position,
  ActionType, ActionQuality, ResultType, PlayerRole, Coordinate, Lineup, RoleMapping,
  TeamConfig, LogEntry, GameState) are imported by every source file but are not among
  the sources. They are reconstructed from section 3 of the specification and from the
  way the three source files build and read their values.

  JavaScript numbers that hold scores, counters and clock readings are modelled as
  \<^typ>\<open>int\<close>; strings are lists of 8-bit characters.
\<close>

text \<open>\<^verbatim>\<open>TeamSide\<close>: the string literals \<^verbatim>\<open>'me'\<close> and \<^verbatim>\<open>'op'\<close>. Both are truthy.\<close>

datatype TeamSide = Me | Op

text \<open>\<^verbatim>\<open>Position\<close>: the numbers 1 to 6. \<^verbatim>\<open>Position | 'L'\<close> is a sidebar slot.\<close>

datatype Position = P1 | P2 | P3 | P4 | P5 | P6

datatype Slot = Pos Position | Libero

text \<open>
  \<^verbatim>\<open>ActionType\<close> is used as a key of \<^verbatim>\<open>ACTION_LABELS: Record<string, string>\<close> and
  printed raw in the CSV export, so its members are non-empty strings: every member is
  truthy.
\<close>

datatype ActionType = SERVE | ATTACK | BLOCK | DIG | SET | RECEIVE

text \<open>Only \<^verbatim>\<open>ActionQuality.NORMAL\<close> occurs in the sources.\<close>

datatype ActionQuality = QUALITY_NORMAL | QUALITY_OTHER

datatype ResultType = POINT | ERROR | NORMAL

text \<open>The role codes of \<^verbatim>\<open>ROLES\<close> in SetupView.tsx; \<^verbatim>\<open>'?'\<close> is \<open>ROLE_UNKNOWN\<close>.\<close>

datatype PlayerRole = ROLE_S | ROLE_OH | ROLE_MB | ROLE_OP | ROLE_DS | ROLE_L | ROLE_UNKNOWN

datatype View = SetupScreen | GameScreen

datatype InteractionState = IDLE | PLAYER_SELECTED | DRAWING | RESULT_PENDING

record Coordinate =
  coord_x :: real
  coord_y :: real

text \<open>A lineup is an object with exactly the keys 1 to 6, each holding a jersey string.\<close>

record Lineup =
  pos1 :: string
  pos2 :: string
  pos3 :: string
  pos4 :: string
  pos5 :: string
  pos6 :: string

record RoleMapping =
  role1 :: PlayerRole
  role2 :: PlayerRole
  role3 :: PlayerRole
  role4 :: PlayerRole
  role5 :: PlayerRole
  role6 :: PlayerRole

record TeamConfig =
  matchName :: string
  myName :: string
  opName :: string

text \<open>
  A ledger entry. The trajectory ends are optional (\<^verbatim>\<open>startCoord || undefined\<close>), and so
  is the note (the CSV export reads \<^verbatim>\<open>log.note || ''\<close>).
\<close>

record LogEntry =
  log_id :: string
  log_timestamp :: int
  log_setNumber :: int
  log_myScore :: int
  log_opScore :: int
  log_playerNumber :: string
  log_position :: Slot
  log_action :: ActionType
  log_quality :: ActionQuality
  log_result :: ResultType
  log_startCoord :: "Coordinate option"
  log_endCoord :: "Coordinate option"
  log_note :: "string option"
  log_servingTeam :: TeamSide

text \<open>
  A snapshot, the unit of undo and redo. The role mappings may be absent in a snapshot:
  every reader of a snapshot falls back on \<^verbatim>\<open>getInitialRoles()\<close> for them
  (\<^verbatim>\<open>previous.myRoles || getInitialRoles()\<close>).
\<close>

record GameState =
  gs_currentSet :: int
  gs_mySetWins :: int
  gs_opSetWins :: int
  gs_myLineup :: Lineup
  gs_opLineup :: Lineup
  gs_myRoles :: "RoleMapping option"
  gs_opRoles :: "RoleMapping option"
  gs_myLibero :: string
  gs_opLibero :: string
  gs_myScore :: int
  gs_opScore :: int
  gs_servingTeam :: TeamSide
  gs_logs :: "LogEntry list"

text \<open>The two optional arguments of \<^verbatim>\<open>handleGameAction\<close> that are objects.\<close>

record ScoreUpdate =
  myDelta :: int
  opDelta :: int

record LineupUpdate =
  isMyTeam :: bool
  newLineup :: Lineup
  newLibero :: "string option"

text \<open>
  The state of the \<^verbatim>\<open>App\<close> component (src/unnamed/part\_000): one field for each
  \<^verbatim>\<open>useState\<close> cell that a handler modelled below reads or writes. The orientation flag
  and the install prompt are left out.
\<close>

record App =
  view :: View
  isGameActive :: bool
  setupKey :: int
  teamConfig :: TeamConfig
  currentSet :: int
  mySetWins :: int
  opSetWins :: int
  myLineup :: Lineup
  opLineup :: Lineup
  myRoles :: RoleMapping
  opRoles :: RoleMapping
  myLibero :: string
  opLibero :: string
  myScore :: int
  opScore :: int
  servingTeam :: TeamSide
  logs :: "LogEntry list"
  history :: "GameState list"
  future :: "GameState list"

text \<open>
  The interaction state of the \<^verbatim>\<open>GameView\<close> component: the state machine, the pending
  selection and trajectory, and the substitution and score-adjustment dialogs. The
  anchor rectangle of \<^verbatim>\<open>scoreAdjTarget\<close> is layout and is left out, as are the menus.
\<close>

record GameView =
  state :: InteractionState
  activeSide :: TeamSide
  selectedPos :: "Slot option"
  selectedAction :: "ActionType option"
  showSubModal :: bool
  subNumber :: string
  subTarget :: "(TeamSide \<times> Slot) option"
  scoreAdjTarget :: "TeamSide option"
  startCoord :: "Coordinate option"
  endCoord :: "Coordinate option"

text \<open>The jersey fields of the \<^verbatim>\<open>SetupView\<close> component.\<close>

record SetupView =
  sv_myLineup :: Lineup
  sv_opLineup :: Lineup
  sv_myLibero :: string
  sv_opLibero :: string

record StatSummary =
  attackKills :: int
  attackTotal :: int
  blocks :: int
  serveAces :: int
  serveErrors :: int
  digs :: int
  totalPoints :: int

section \<open>Lineups and rotation (GameView)\<close>

text \<open>\<^verbatim>\<open>lineup[pos]\<close>\<close>

fun lineup_get :: "Lineup \<Rightarrow> Position \<Rightarrow> string" where
  "lineup_get l P1 = pos1 l"
| "lineup_get l P2 = pos2 l"
| "lineup_get l P3 = pos3 l"
| "lineup_get l P4 = pos4 l"
| "lineup_get l P5 = pos5 l"
| "lineup_get l P6 = pos6 l"

text \<open>\<^verbatim>\<open>{ ...lineup, [pos]: val }\<close>\<close>

fun lineup_set :: "Lineup \<Rightarrow> Position \<Rightarrow> string \<Rightarrow> Lineup" where
  "lineup_set l P1 v = l\<lparr>pos1 := v\<rparr>"
| "lineup_set l P2 v = l\<lparr>pos2 := v\<rparr>"
| "lineup_set l P3 v = l\<lparr>pos3 := v\<rparr>"
| "lineup_set l P4 v = l\<lparr>pos4 := v\<rparr>"
| "lineup_set l P5 v = l\<lparr>pos5 := v\<rparr>"
| "lineup_set l P6 v = l\<lparr>pos6 := v\<rparr>"

text \<open>
  \<^verbatim>\<open>getRotatedLineup = (lineup) => ({ 1: lineup[2], 6: lineup[1], 5: lineup[6],
  4: lineup[5], 3: lineup[4], 2: lineup[3] })\<close>
\<close>

definition getRotatedLineup :: "Lineup \<Rightarrow> Lineup" where
  "getRotatedLineup lineup =
     \<lparr>pos1 = lineup_get lineup P2,
      pos2 = lineup_get lineup P3,
      pos3 = lineup_get lineup P4,
      pos4 = lineup_get lineup P5,
      pos5 = lineup_get lineup P6,
      pos6 = lineup_get lineup P1\<rparr>"

section \<open>The match state store and its history (App)\<close>

text \<open>
  A handler runs to completion on the values of one render: what it reads from its
  closure is the state before the handler, and its \<^verbatim>\<open>set...\<close> calls are applied in
  order. Each handler is a function from the state before to the state after.
\<close>

definition getInitialLineup :: Lineup where
  "getInitialLineup = \<lparr>pos1 = '''', pos2 = '''', pos3 = '''', pos4 = '''', pos5 = '''', pos6 = ''''\<rparr>"

definition getInitialRoles :: RoleMapping where
  "getInitialRoles =
     \<lparr>role1 = ROLE_UNKNOWN, role2 = ROLE_UNKNOWN, role3 = ROLE_UNKNOWN,
      role4 = ROLE_UNKNOWN, role5 = ROLE_UNKNOWN, role6 = ROLE_UNKNOWN\<rparr>"

definition getInitialConfig :: TeamConfig where
  "getInitialConfig = \<lparr>matchName = '''', myName = '''', opName = ''''\<rparr>"

text \<open>\<^verbatim>\<open>roles || getInitialRoles()\<close>: an object is truthy, an absent one is not.\<close>

definition rolesOrInitial :: "RoleMapping option \<Rightarrow> RoleMapping" where
  "rolesOrInitial r = (case r of Some m \<Rightarrow> m | None \<Rightarrow> getInitialRoles)"

definition getCurrentState :: "App \<Rightarrow> GameState" where
  "getCurrentState a =
     \<lparr>gs_currentSet = currentSet a,
      gs_mySetWins = mySetWins a,
      gs_opSetWins = opSetWins a,
      gs_myLineup = myLineup a,
      gs_opLineup = opLineup a,
      gs_myRoles = Some (myRoles a),
      gs_opRoles = Some (opRoles a),
      gs_myLibero = myLibero a,
      gs_opLibero = opLibero a,
      gs_myScore = myScore a,
      gs_opScore = opScore a,
      gs_servingTeam = servingTeam a,
      gs_logs = logs a\<rparr>"

text \<open>
  \<^verbatim>\<open>pushHistory\<close>: \<^verbatim>\<open>setHistory(prev => [...prev, current]); setFuture([])\<close>.
  The newest snapshot is the last element of \<open>history\<close>.
\<close>

definition pushHistory :: "App \<Rightarrow> App" where
  "pushHistory a = a\<lparr>history := history a @ [getCurrentState a], future := []\<rparr>"

text \<open>The thirteen setters that \<^verbatim>\<open>handleUndo\<close> and \<^verbatim>\<open>handleRedo\<close> share.\<close>

definition restoreState :: "GameState \<Rightarrow> App \<Rightarrow> App" where
  "restoreState g a =
     a\<lparr>currentSet := gs_currentSet g,
       mySetWins := gs_mySetWins g,
       opSetWins := gs_opSetWins g,
       myLineup := gs_myLineup g,
       opLineup := gs_opLineup g,
       myRoles := rolesOrInitial (gs_myRoles g),
       opRoles := rolesOrInitial (gs_opRoles g),
       myLibero := gs_myLibero g,
       opLibero := gs_opLibero g,
       myScore := gs_myScore g,
       opScore := gs_opScore g,
       servingTeam := gs_servingTeam g,
       logs := gs_logs g\<rparr>"

text \<open>
  \<^verbatim>\<open>handleUndo\<close>: nothing on an empty history; otherwise the current state goes to the
  front of \<open>future\<close>, the last snapshot leaves \<open>history\<close> (\<^verbatim>\<open>slice(0, -1)\<close>) and is
  restored.
\<close>

definition handleUndo :: "App \<Rightarrow> App" where
  "handleUndo a =
     (if length (history a) = 0 then a
      else
        let previous = last (history a);
            current = getCurrentState a
        in restoreState previous
             (a\<lparr>future := current # future a, history := butlast (history a)\<rparr>))"

text \<open>
  \<^verbatim>\<open>handleRedo\<close>: nothing on an empty future; otherwise the current state goes to the
  end of \<open>history\<close>, the first snapshot leaves \<open>future\<close> (\<^verbatim>\<open>slice(1)\<close>) and is restored.
\<close>

definition handleRedo :: "App \<Rightarrow> App" where
  "handleRedo a =
     (case future a of
        [] \<Rightarrow> a
      | next # rest \<Rightarrow>
          let current = getCurrentState a
          in restoreState next
               (a\<lparr>history := history a @ [current], future := rest\<rparr>))"

text \<open>\<^verbatim>\<open>handleNextSet\<close>: the scores compared are those of the render.\<close>

definition handleNextSet :: "App \<Rightarrow> App" where
  "handleNextSet a =
     (let a1 = pushHistory a;
          a2 = (if myScore a > opScore a then a1\<lparr>mySetWins := mySetWins a1 + 1\<rparr>
                else if opScore a > myScore a then a1\<lparr>opSetWins := opSetWins a1 + 1\<rparr>
                else a1);
          a3 = a2\<lparr>currentSet := currentSet a2 + 1\<rparr>
      in a3\<lparr>view := SetupScreen\<rparr>)"

text \<open>
  \<^verbatim>\<open>handleGameAction\<close>: the snapshot first, then each of the four optional deltas.
  The appended entry gets the set number of the render.
\<close>

definition applyLineupUpdate :: "LineupUpdate \<Rightarrow> App \<Rightarrow> App" where
  "applyLineupUpdate u a =
     (if isMyTeam u then
        (let b = a\<lparr>myLineup := newLineup u\<rparr>
         in case newLibero u of None \<Rightarrow> b | Some v \<Rightarrow> b\<lparr>myLibero := v\<rparr>)
      else
        (let b = a\<lparr>opLineup := newLineup u\<rparr>
         in case newLibero u of None \<Rightarrow> b | Some v \<Rightarrow> b\<lparr>opLibero := v\<rparr>))"

definition handleGameAction ::
  "LogEntry option \<Rightarrow> ScoreUpdate option \<Rightarrow> LineupUpdate option \<Rightarrow> TeamSide option
     \<Rightarrow> App \<Rightarrow> App" where
  "handleGameAction newLog scoreUpdate lineupUpdate newServingTeam a =
     (let a1 = pushHistory a;
          a2 = (case newLog of
                  None \<Rightarrow> a1
                | Some l \<Rightarrow> a1\<lparr>logs := logs a1 @ [l\<lparr>log_setNumber := currentSet a\<rparr>]\<rparr>);
          a3 = (case scoreUpdate of
                  None \<Rightarrow> a2
                | Some u \<Rightarrow> a2\<lparr>myScore := myScore a2 + myDelta u,
                              opScore := opScore a2 + opDelta u\<rparr>);
          a4 = (case lineupUpdate of
                  None \<Rightarrow> a3
                | Some u \<Rightarrow> applyLineupUpdate u a3)
      in case newServingTeam of None \<Rightarrow> a4 | Some t \<Rightarrow> a4\<lparr>servingTeam := t\<rparr>)"

text \<open>The handlers that empty both stacks: a fresh match, a hard reset, a loaded match.\<close>

definition handleGameStart ::
  "TeamConfig \<Rightarrow> Lineup \<Rightarrow> Lineup \<Rightarrow> RoleMapping \<Rightarrow> RoleMapping \<Rightarrow> string \<Rightarrow> string
     \<Rightarrow> TeamSide \<Rightarrow> App \<Rightarrow> App" where
  "handleGameStart config initialMyLineup initialOpLineup initialMyRoles initialOpRoles
       initialMyLibero initialOpLibero initialServingTeam a =
     a\<lparr>teamConfig := config,
       myLineup := initialMyLineup,
       opLineup := initialOpLineup,
       myRoles := initialMyRoles,
       opRoles := initialOpRoles,
       myLibero := initialMyLibero,
       opLibero := initialOpLibero,
       myScore := 0,
       opScore := 0,
       servingTeam := initialServingTeam,
       history := [],
       future := [],
       view := GameScreen,
       isGameActive := True\<rparr>"

definition handleNewMatch :: "App \<Rightarrow> App" where
  "handleNewMatch a =
     a\<lparr>teamConfig := getInitialConfig,
       myLineup := getInitialLineup,
       opLineup := getInitialLineup,
       myRoles := getInitialRoles,
       opRoles := getInitialRoles,
       myLibero := '''',
       opLibero := '''',
       currentSet := 1,
       mySetWins := 0,
       opSetWins := 0,
       myScore := 0,
       opScore := 0,
       logs := [],
       history := [],
       future := [],
       isGameActive := False,
       setupKey := setupKey a + 1,
       view := SetupScreen\<rparr>"

text \<open>
  \<^verbatim>\<open>handleLoadGame\<close>: \<^verbatim>\<open>savedState.currentSet || 1\<close> replaces a set number 0 by 1; the
  other \<^verbatim>\<open>||\<close> defaults (0 for a number, the empty string for a string) change nothing.
\<close>

definition handleLoadGame :: "GameState \<Rightarrow> TeamConfig \<Rightarrow> App \<Rightarrow> App" where
  "handleLoadGame savedState config a =
     a\<lparr>teamConfig := config,
       currentSet := (if gs_currentSet savedState = 0 then 1 else gs_currentSet savedState),
       mySetWins := gs_mySetWins savedState,
       opSetWins := gs_opSetWins savedState,
       myLineup := gs_myLineup savedState,
       opLineup := gs_opLineup savedState,
       myRoles := rolesOrInitial (gs_myRoles savedState),
       opRoles := rolesOrInitial (gs_opRoles savedState),
       myLibero := gs_myLibero savedState,
       opLibero := gs_opLibero savedState,
       myScore := gs_myScore savedState,
       opScore := gs_opScore savedState,
       servingTeam := gs_servingTeam savedState,
       logs := gs_logs savedState,
       history := [],
       future := [],
       isGameActive := True\<rparr>"

text \<open>The state of the first render.\<close>

definition initialApp :: App where
  "initialApp =
     \<lparr>view = SetupScreen, isGameActive = False, setupKey = 0,
      teamConfig = getInitialConfig,
      currentSet = 1, mySetWins = 0, opSetWins = 0,
      myLineup = getInitialLineup, opLineup = getInitialLineup,
      myRoles = getInitialRoles, opRoles = getInitialRoles,
      myLibero = '''', opLibero = '''',
      myScore = 0, opScore = 0, servingTeam = Me,
      logs = [], history = [], future = []\<rparr>"

section \<open>Committing actions (GameView)\<close>

text \<open>\<^verbatim>\<open>Number.prototype.toString\<close> on an integer: decimal digits, a minus sign if negative.\<close>

definition digitChar :: "nat \<Rightarrow> char" where
  "digitChar d = ''0123456789'' ! d"

fun natToString :: "nat \<Rightarrow> string" where
  "natToString n = (if n < 10 then [digitChar n] else natToString (n div 10) @ [digitChar (n mod 10)])"

definition toString :: "int \<Rightarrow> string" where
  "toString i = (if i < 0 then CHR ''-'' # natToString (nat (- i)) else natToString (nat i))"

text \<open>
  \<^verbatim>\<open>String.prototype.trim\<close> on 8-bit characters: tab, line feed, vertical tab, form
  feed, carriage return, space and the no-break space are stripped at both ends.
\<close>

definition isWhiteSpace :: "char \<Rightarrow> bool" where
  "isWhiteSpace c = (of_char c \<in> {9, 10, 11, 12, 13, 32, 160 :: nat})"

definition trim :: "string \<Rightarrow> string" where
  "trim s = rev (dropWhile isWhiteSpace (rev (dropWhile isWhiteSpace s)))"

text \<open>
  A GameView handler reads the App state through its props and changes it only through
  \<^verbatim>\<open>onGameAction\<close>, which is \<open>handleGameAction\<close>; its own state is the first
  component of the pair.
\<close>

definition resetFlow :: "GameView \<Rightarrow> GameView" where
  "resetFlow gv =
     gv\<lparr>state := IDLE, selectedPos := None, selectedAction := None,
        startCoord := None, endCoord := None, scoreAdjTarget := None\<rparr>"

definition handleRotation :: "bool \<Rightarrow> GameView \<times> App \<Rightarrow> GameView \<times> App" where
  "handleRotation isMy = (\<lambda>(gv, a).
     let currentLineup = (if isMy then myLineup a else opLineup a);
         rotated = getRotatedLineup currentLineup
     in (gv, handleGameAction None None
               (Some \<lparr>isMyTeam = isMy, newLineup = rotated, newLibero = None\<rparr>) None a))"

text \<open>
  \<^verbatim>\<open>handleScoreAdjust(isMyTeam, delta)\<close>. \<open>idNow\<close> and \<open>tsNow\<close> are the two readings of
  \<^verbatim>\<open>Date.now()\<close>, for the id and for the timestamp.
\<close>

definition handleScoreAdjust ::
  "bool \<Rightarrow> int \<Rightarrow> int \<Rightarrow> int \<Rightarrow> GameView \<times> App \<Rightarrow> GameView \<times> App" where
  "handleScoreAdjust isMy delta idNow tsNow = (\<lambda>(gv, a).
     let currentScore = (if isMy then myScore a else opScore a)
     in if currentScore + delta < 0 then (gv, a)
        else
          let scoreUpdate = \<lparr>myDelta = (if isMy then delta else 0),
                             opDelta = (if \<not> isMy then delta else 0)\<rparr>;
              pointWinner = (if isMy then Me else Op);
              sideOut = (delta > 0 \<and> pointWinner \<noteq> servingTeam a);
              newServingTeam = (if sideOut then Some pointWinner else None);
              lineToRotate = (if pointWinner = Me then myLineup a else opLineup a);
              lineupUpdate =
                (if sideOut
                 then Some \<lparr>isMyTeam = (pointWinner = Me),
                            newLineup = getRotatedLineup lineToRotate,
                            newLibero = None\<rparr>
                 else None);
              newLog =
                \<lparr>log_id = toString idNow,
                 log_timestamp = tsNow,
                 log_setNumber = currentSet a,
                 log_myScore = (if isMy then myScore a + delta else myScore a),
                 log_opScore = (if \<not> isMy then opScore a + delta else opScore a),
                 log_playerNumber = '''',
                 log_position = Pos P1,
                 log_action = ATTACK,
                 log_quality = QUALITY_NORMAL,
                 log_result = (if delta > 0 then POINT else NORMAL),
                 log_startCoord = None,
                 log_endCoord = None,
                 log_note = Some (''Manual Adjust '' @ (if delta > 0 then ''+'' else '''')
                                    @ toString delta),
                 log_servingTeam =
                   (case newServingTeam of Some t \<Rightarrow> t | None \<Rightarrow> servingTeam a)\<rparr>
          in (gv, handleGameAction (Some newLog) (Some scoreUpdate) lineupUpdate
                    newServingTeam a))"

text \<open>
  \<^verbatim>\<open>handleSubConfirm\<close>: without a target or with a blank number the dialog just closes;
  otherwise the number replaces the libero or the slot's jersey, with no ledger entry.
\<close>

definition handleSubConfirm :: "GameView \<times> App \<Rightarrow> GameView \<times> App" where
  "handleSubConfirm = (\<lambda>(gv, a).
     case subTarget gv of
       None \<Rightarrow> (gv\<lparr>showSubModal := False\<rparr>, a)
     | Some (side, pos) \<Rightarrow>
         if trim (subNumber gv) = [] then (gv\<lparr>showSubModal := False\<rparr>, a)
         else
           let isMy = (side = Me);
               currentLineup = (if isMy then myLineup a else opLineup a);
               newLiberoVal = (case pos of Libero \<Rightarrow> Some (subNumber gv) | Pos p \<Rightarrow> None);
               changedLineup = (case pos of
                                  Libero \<Rightarrow> currentLineup
                                | Pos p \<Rightarrow> lineup_set currentLineup p (subNumber gv))
           in (gv\<lparr>showSubModal := False, subTarget := None\<rparr>,
               handleGameAction None None
                 (Some \<lparr>isMyTeam = isMy, newLineup = changedLineup, newLibero = newLiberoVal\<rparr>)
                 None a))"

text \<open>
  \<^verbatim>\<open>handleResult(result)\<close>: returns at once unless a slot and an action are selected.
  \<open>pointBranch\<close> and \<open>errorBranch\<close> are the bodies of the two branches of the source:
  each gives the score delta, the new serving team and the lineup delta.
\<close>

definition handleResult ::
  "ResultType \<Rightarrow> int \<Rightarrow> int \<Rightarrow> GameView \<times> App \<Rightarrow> GameView \<times> App" where
  "handleResult result idNow tsNow = (\<lambda>(gv, a).
     case selectedPos gv of
       None \<Rightarrow> (gv, a)
     | Some sp \<Rightarrow>
     (case selectedAction gv of
       None \<Rightarrow> (gv, a)
     | Some sa \<Rightarrow>
         let isMy = (activeSide gv = Me);
             lineup = (if isMy then myLineup a else opLineup a);
             playerNumber = (case sp of
                               Libero \<Rightarrow> (if isMy then myLibero a else opLibero a)
                             | Pos p \<Rightarrow> lineup_get lineup p);
             pointBranch =
               (let pointWinner = (if isMy then Me else Op)
                in (Some \<lparr>myDelta = (if isMy then 1 else 0), opDelta = (if \<not> isMy then 1 else 0)\<rparr>,
                    if pointWinner \<noteq> servingTeam a
                    then (Some pointWinner,
                          Some \<lparr>isMyTeam = (pointWinner = Me),
                                newLineup = getRotatedLineup
                                              (if pointWinner = Me then myLineup a else opLineup a),
                                newLibero = None\<rparr>)
                    else (None, None)));
             errorBranch =
               (let pointWinner = (if \<not> isMy then Me else Op)
                in (Some \<lparr>myDelta = (if \<not> isMy then 1 else 0), opDelta = (if isMy then 1 else 0)\<rparr>,
                    if pointWinner \<noteq> servingTeam a
                    then (Some pointWinner,
                          Some \<lparr>isMyTeam = (pointWinner = Me),
                                newLineup = getRotatedLineup
                                              (if pointWinner = Me then myLineup a else opLineup a),
                                newLibero = None\<rparr>)
                    else (None, None)));
             (scoreUpdate, newServingTeam, lineupUpdate) =
               (if result = POINT then pointBranch
                else if result = ERROR then errorBranch
                else (None, None, None));
             nextMyScore = (case scoreUpdate of Some u \<Rightarrow> myScore a + myDelta u | None \<Rightarrow> myScore a);
             nextOpScore = (case scoreUpdate of Some u \<Rightarrow> opScore a + opDelta u | None \<Rightarrow> opScore a);
             newLog =
               \<lparr>log_id = toString idNow,
                log_timestamp = tsNow,
                log_setNumber = currentSet a,
                log_myScore = nextMyScore,
                log_opScore = nextOpScore,
                log_playerNumber = playerNumber,
                log_position = sp,
                log_action = sa,
                log_quality = QUALITY_NORMAL,
                log_result = result,
                log_startCoord = startCoord gv,
                log_endCoord = endCoord gv,
                log_note = Some (if isMy then myName (teamConfig a) else opName (teamConfig a)),
                log_servingTeam =
                  (case newServingTeam of Some t \<Rightarrow> t | None \<Rightarrow> servingTeam a)\<rparr>
         in (resetFlow gv,
             handleGameAction (Some newLog) scoreUpdate lineupUpdate newServingTeam a)))"

section \<open>Statistics (StatsOverlay)\<close>

text \<open>
  \<^verbatim>\<open>getTeamLogs(side)\<close>: an entry is the team's own when its note is \<^verbatim>\<open>teamConfig.myName\<close>,
  and the opponent's otherwise.
\<close>

definition getTeamLogs :: "TeamConfig \<Rightarrow> LogEntry list \<Rightarrow> TeamSide \<Rightarrow> LogEntry list" where
  "getTeamLogs config ls side =
     filter (\<lambda>l.
       let isMyAction = (log_note l = Some (myName config));
           logTeam = (if isMyAction then Me else Op)
       in logTeam = side) ls"

definition getPlayerLogs ::
  "TeamConfig \<Rightarrow> LogEntry list \<Rightarrow> string \<Rightarrow> TeamSide \<Rightarrow> LogEntry list" where
  "getPlayerLogs config ls playerNum side =
     filter (\<lambda>l. log_playerNumber l = playerNum) (getTeamLogs config ls side)"

text \<open>One round of the \<^verbatim>\<open>forEach\<close> of \<^verbatim>\<open>calculateStats\<close>, and the whole function.\<close>

definition countEntry :: "LogEntry \<Rightarrow> StatSummary \<Rightarrow> StatSummary" where
  "countEntry l stats =
     (let s1 = (if log_action l = ATTACK
                then (let t = stats\<lparr>attackTotal := attackTotal stats + 1\<rparr>
                      in if log_result l = POINT then t\<lparr>attackKills := attackKills t + 1\<rparr> else t)
                else stats);
          s2 = (if log_action l = BLOCK \<and> log_result l = POINT
                then s1\<lparr>blocks := blocks s1 + 1\<rparr> else s1);
          s3 = (if log_action l = SERVE
                then (let t = (if log_result l = POINT
                               then s2\<lparr>serveAces := serveAces s2 + 1\<rparr> else s2)
                      in if log_result l = ERROR then t\<lparr>serveErrors := serveErrors t + 1\<rparr> else t)
                else s2)
      in if log_action l = DIG then s3\<lparr>digs := digs s3 + 1\<rparr> else s3)"

definition calculateStats :: "LogEntry list \<Rightarrow> StatSummary" where
  "calculateStats filteredLogs =
     (let stats = fold countEntry filteredLogs
                    \<lparr>attackKills = 0, attackTotal = 0, blocks = 0, serveAces = 0,
                     serveErrors = 0, digs = 0, totalPoints = 0\<rparr>
      in stats\<lparr>totalPoints := attackKills stats + blocks stats + serveAces stats\<rparr>)"

section \<open>Jersey input (SetupView)\<close>

definition isDigit :: "char \<Rightarrow> bool" where
  "isDigit c = (48 \<le> (of_char c :: nat) \<and> (of_char c :: nat) \<le> 57)"

text \<open>
  \<^verbatim>\<open>sanitizeInput\<close>: drop every character that is not a digit, keep at most two, and
  answer \<^verbatim>\<open>null\<close> when what is left starts with 0.
\<close>

definition sanitizeInput :: "string \<Rightarrow> string option" where
  "sanitizeInput value =
     (let numericValue = filter isDigit value;
          numericValue = (if length numericValue > 2 then take 2 numericValue else numericValue)
      in if length numericValue > 0 \<and> hd numericValue = CHR ''0'' then None
         else Some numericValue)"

text \<open>
  \<^verbatim>\<open>handlePlayerChange(isMyTeam, pos, value)\<close>. The slot arrives as \<^verbatim>\<open>pos.toString()\<close> of a
  position and is read back with \<^verbatim>\<open>parseInt\<close>, so it is taken as the position itself.
\<close>

definition handlePlayerChange :: "bool \<Rightarrow> Position \<Rightarrow> string \<Rightarrow> SetupView \<Rightarrow> SetupView" where
  "handlePlayerChange isMy pos value sv =
     (case sanitizeInput value of
        None \<Rightarrow> sv
      | Some val \<Rightarrow>
          if isMy then sv\<lparr>sv_myLineup := lineup_set (sv_myLineup sv) pos val\<rparr>
          else sv\<lparr>sv_opLineup := lineup_set (sv_opLineup sv) pos val\<rparr>)"

definition handleLiberoChange :: "bool \<Rightarrow> string \<Rightarrow> SetupView \<Rightarrow> SetupView" where
  "handleLiberoChange isMy value sv =
     (case sanitizeInput value of
        None \<Rightarrow> sv
      | Some val \<Rightarrow> if isMy then sv\<lparr>sv_myLibero := val\<rparr> else sv\<lparr>sv_opLibero := val\<rparr>)"

text \<open>
  \<^verbatim>\<open>useState(initialMyLineup || createEmptyLineup())\<close> and its three siblings: the
  setup screen starts from the lineups and liberos of the App, which are always given.
\<close>

definition mountSetupView :: "App \<Rightarrow> SetupView" where
  "mountSetupView a =
     \<lparr>sv_myLineup = myLineup a, sv_opLineup = opLineup a,
      sv_myLibero = myLibero a, sv_opLibero = opLibero a\<rparr>"

section \<open>Vocabulary of the statements\<close>



fun opponentOf :: "TeamSide \<Rightarrow> TeamSide" where
  "opponentOf Me = Op"
| "opponentOf Op = Me"

text \<open>A snapshot that holds both role mappings.\<close>

definition snapshotComplete :: "GameState \<Rightarrow> bool" where
  "snapshotComplete g = (gs_myRoles g \<noteq> None \<and> gs_opRoles g \<noteq> None)"

definition stacksComplete :: "App \<Rightarrow> bool" where
  "stacksComplete a = (list_all snapshotComplete (history a) \<and> list_all snapshotComplete (future a))"

text \<open>
  The states of the App: the first render, and whatever a handler of the component makes
  of a state, for any arguments its callers may pass.
\<close>

inductive reachable :: "App \<Rightarrow> bool" where
  reach_initial: "reachable initialApp"
| reach_start: "reachable a \<Longrightarrow>
    reachable (handleGameStart config ml ol mr or' mlib olib st a)"
| reach_new_match: "reachable a \<Longrightarrow> reachable (handleNewMatch a)"
| reach_load: "reachable a \<Longrightarrow> reachable (handleLoadGame savedState config a)"
| reach_action: "reachable a \<Longrightarrow> reachable (handleGameAction nl su lu ns a)"
| reach_next_set: "reachable a \<Longrightarrow> reachable (handleNextSet a)"
| reach_undo: "reachable a \<Longrightarrow> reachable (handleUndo a)"
| reach_redo: "reachable a \<Longrightarrow> reachable (handleRedo a)"
| reach_view: "reachable a \<Longrightarrow> reachable (a\<lparr>view := v\<rparr>)"

text \<open>A jersey string: empty, or one or two decimal digits of which the first is not 0.\<close>

definition validJersey :: "string \<Rightarrow> bool" where
  "validJersey s =
     (s = [] \<or> (length s \<le> 2 \<and> list_all isDigit s \<and> hd s \<noteq> CHR ''0''))"

section \<open>Example states\<close>

text \<open>
  A match started from the setup screen with the jerseys of \<^verbatim>\<open>handleTestFill\<close>, the
  opponent serving first, at 10:12; and a GameView in which the player at position 4 of
  the own team has attacked and the result is pending.
\<close>

definition exampleConfig :: TeamConfig where
  "exampleConfig = \<lparr>matchName = ''G1'', myName = ''Home'', opName = ''Away''\<rparr>"

definition exampleMyLineup :: Lineup where
  "exampleMyLineup =
     \<lparr>pos1 = ''1'', pos2 = ''2'', pos3 = ''3'', pos4 = ''4'', pos5 = ''5'', pos6 = ''6''\<rparr>"

definition exampleOpLineup :: Lineup where
  "exampleOpLineup =
     \<lparr>pos1 = ''11'', pos2 = ''12'', pos3 = ''13'', pos4 = ''14'', pos5 = ''15'', pos6 = ''16''\<rparr>"

definition exampleApp :: App where
  "exampleApp =
     (handleGameStart exampleConfig exampleMyLineup exampleOpLineup getInitialRoles
        getInitialRoles ''99'' ''88'' Op initialApp)\<lparr>myScore := 10, opScore := 12\<rparr>"

definition exampleView :: GameView where
  "exampleView =
     \<lparr>state = RESULT_PENDING, activeSide = Me, selectedPos = Some (Pos P4),
      selectedAction = Some ATTACK, showSubModal = False, subNumber = [],
      subTarget = None, scoreAdjTarget = None,
      startCoord = Some \<lparr>coord_x = 75, coord_y = 25\<rparr>,
      endCoord = Some \<lparr>coord_x = 20, coord_y = 60\<rparr>\<rparr>"

section \<open>Rotation\<close>

text \<open>
  C2. The rotation is the permutation new[1]=old[2], new[2]=old[3], new[3]=old[4],
  new[4]=old[5], new[5]=old[6], new[6]=old[1], and six rotations of any lineup give the
  lineup back.
\<close>

theorem rotation_is_cyclic_shift:
  "lineup_get (getRotatedLineup L) P1 = lineup_get L P2
   \<and> lineup_get (getRotatedLineup L) P2 = lineup_get L P3
   \<and> lineup_get (getRotatedLineup L) P3 = lineup_get L P4
   \<and> lineup_get (getRotatedLineup L) P4 = lineup_get L P5
   \<and> lineup_get (getRotatedLineup L) P5 = lineup_get L P6
   \<and> lineup_get (getRotatedLineup L) P6 = lineup_get L P1
   \<and> getRotatedLineup (getRotatedLineup (getRotatedLineup
        (getRotatedLineup (getRotatedLineup (getRotatedLineup L))))) = L"
  by (simp add: getRotatedLineup_def)

section \<open>History\<close>

lemma handleGameAction_stacks:
  "history (handleGameAction nl su lu ns a) = history a @ [getCurrentState a]"
  "future (handleGameAction nl su lu ns a) = []"
  by (simp_all add: handleGameAction_def pushHistory_def applyLineupUpdate_def Let_def split: option.splits)

lemma handleGameAction_fields:
  "myScore (handleGameAction nl su lu ns a) = (case su of None \<Rightarrow> myScore a | Some u \<Rightarrow> myScore a + myDelta u)"
  "opScore (handleGameAction nl su lu ns a) = (case su of None \<Rightarrow> opScore a | Some u \<Rightarrow> opScore a + opDelta u)"
  "servingTeam (handleGameAction nl su lu ns a) = (case ns of None \<Rightarrow> servingTeam a | Some t \<Rightarrow> t)"
  "myLineup (handleGameAction nl su lu ns a) =
     (case lu of None \<Rightarrow> myLineup a | Some u \<Rightarrow> if isMyTeam u then newLineup u else myLineup a)"
  "opLineup (handleGameAction nl su lu ns a) =
     (case lu of None \<Rightarrow> opLineup a | Some u \<Rightarrow> if isMyTeam u then opLineup a else newLineup u)"
  "logs (handleGameAction nl su lu ns a) =
     (case nl of None \<Rightarrow> logs a | Some l \<Rightarrow> logs a @ [l\<lparr>log_setNumber := currentSet a\<rparr>])"
  "teamConfig (handleGameAction nl su lu ns a) = teamConfig a"
  by (simp_all add: handleGameAction_def pushHistory_def applyLineupUpdate_def Let_def split: option.splits)

lemma exampleApp_fields:
  "myScore exampleApp = 10" "opScore exampleApp = 12" "servingTeam exampleApp = Op"
  "myLineup exampleApp = exampleMyLineup" "opLineup exampleApp = exampleOpLineup"
  "logs exampleApp = []" "teamConfig exampleApp = exampleConfig" "currentSet exampleApp = 1"
  "history exampleApp = []" "future exampleApp = []"
  by (simp_all add: exampleApp_def handleGameStart_def initialApp_def)

lemma exampleView_fields:
  "selectedPos exampleView = Some (Pos P4)" "selectedAction exampleView = Some ATTACK"
  "activeSide exampleView = Me"
  by (simp_all add: exampleView_def)

lemma snapshotComplete_current: "snapshotComplete (getCurrentState a)"
  by (simp add: snapshotComplete_def getCurrentState_def)

lemma restoreState_stacks:
  "history (restoreState g a) = history a" "future (restoreState g a) = future a"
  by (simp_all add: restoreState_def)

lemma reachable_stacksComplete: "reachable a \<Longrightarrow> stacksComplete a"
proof (induction rule: reachable.induct)
  case reach_initial
  show ?case by (simp add: stacksComplete_def initialApp_def)
next
  case (reach_start a config ml ol mr or' mlib olib st)
  show ?case by (simp add: stacksComplete_def handleGameStart_def)
next
  case (reach_new_match a)
  show ?case by (simp add: stacksComplete_def handleNewMatch_def)
next
  case (reach_load a savedState config)
  show ?case by (simp add: stacksComplete_def handleLoadGame_def)
next
  case (reach_action a nl su lu ns)
  then show ?case
    by (simp add: stacksComplete_def handleGameAction_stacks snapshotComplete_current)
next
  case (reach_next_set a)
  then show ?case
    by (simp add: stacksComplete_def handleNextSet_def pushHistory_def Let_def snapshotComplete_current)
next
  case (reach_undo a)
  then show ?case
    by (cases "history a" rule: rev_cases)
       (simp_all add: stacksComplete_def handleUndo_def Let_def restoreState_stacks snapshotComplete_current)
next
  case (reach_redo a)
  then show ?case
    by (cases "future a")
       (simp_all add: stacksComplete_def handleRedo_def Let_def restoreState_stacks snapshotComplete_current)
next
  case (reach_view a v)
  then show ?case by (simp add: stacksComplete_def)
qed

lemma restore_current:
  "snapshotComplete g \<Longrightarrow> getCurrentState (restoreState g a) = g"
  by (cases g) (auto simp add: snapshotComplete_def restoreState_def getCurrentState_def rolesOrInitial_def)

text \<open>
  C3. In every state of the App with a non-empty past stack, undo makes the most recent
  past snapshot the current game state, in all its fields, takes it off the past stack and
  puts the state before the undo in front of the future stack; a redo right after that
  undo gives back the whole state that was undone, stacks included.
\<close>

theorem undo_redo_round_trip:
  assumes "reachable a" and "history a \<noteq> []"
  shows "getCurrentState (handleUndo a) = last (history a)
         \<and> history (handleUndo a) = butlast (history a)
         \<and> future (handleUndo a) = getCurrentState a # future a
         \<and> handleRedo (handleUndo a) = a"
proof -
  from assms(1) have sc: "stacksComplete a" by (rule reachable_stacksComplete)
  with assms(2) have lc: "snapshotComplete (last (history a))"
    by (cases "history a" rule: rev_cases) (simp_all add: stacksComplete_def)
  have u: "handleUndo a = restoreState (last (history a))
             (a\<lparr>future := getCurrentState a # future a, history := butlast (history a)\<rparr>)"
    using assms(2) by (simp add: handleUndo_def Let_def)
  have c1: "getCurrentState (handleUndo a) = last (history a)"
    unfolding u using lc by (rule restore_current)
  have c2: "history (handleUndo a) = butlast (history a)"
    unfolding u by (simp add: restoreState_stacks)
  have c3: "future (handleUndo a) = getCurrentState a # future a"
    unfolding u by (simp add: restoreState_stacks)
  have c4: "handleRedo (handleUndo a) = a"
  proof -
    let ?b = "a\<lparr>future := getCurrentState a # future a, history := butlast (history a)\<rparr>"
    let ?g = "last (history a)"
    have "handleRedo (restoreState ?g ?b) =
            restoreState (getCurrentState a)
              ((restoreState ?g ?b)\<lparr>history := butlast (history a) @ [getCurrentState (restoreState ?g ?b)],
                                     future := future a\<rparr>)"
      by (simp add: handleRedo_def restoreState_stacks Let_def)
    also have "\<dots> = restoreState (getCurrentState a)
              ((restoreState ?g ?b)\<lparr>history := history a, future := future a\<rparr>)"
      using assms(2) by (simp add: restore_current [OF lc])
    also have "\<dots> = a"
      by (simp add: restoreState_def getCurrentState_def rolesOrInitial_def)
    finally show ?thesis unfolding u .
  qed
  from c1 c2 c3 c4 show ?thesis by simp
qed

theorem undo_redo_round_trip_witness:
  "reachable (handleNextSet initialApp)
   \<and> history (handleNextSet initialApp) \<noteq> []
   \<and> getCurrentState (handleUndo (handleNextSet initialApp)) = getCurrentState initialApp
   \<and> currentSet (handleNextSet initialApp) = 2
   \<and> currentSet (handleUndo (handleNextSet initialApp)) = 1
   \<and> handleRedo (handleUndo (handleNextSet initialApp)) = handleNextSet initialApp"
proof -
  have r: "reachable (handleNextSet initialApp)"
    by (intro reachable.intros)
  have h: "history (handleNextSet initialApp) = [getCurrentState initialApp]"
    by (simp add: handleNextSet_def pushHistory_def Let_def initialApp_def)
  then have n: "history (handleNextSet initialApp) \<noteq> []" by simp
  have s2: "currentSet (handleNextSet initialApp) = 2"
    by (simp add: handleNextSet_def pushHistory_def Let_def initialApp_def)
  have s1: "gs_currentSet (getCurrentState initialApp) = 1"
    by (simp add: getCurrentState_def initialApp_def)
  have c: "currentSet b = gs_currentSet (getCurrentState b)" for b
    by (simp add: getCurrentState_def)
  from undo_redo_round_trip [OF r n] r n h s1 s2 show ?thesis
    by (simp add: c)
qed

text \<open>
  C4. Every committed mutating action (a player-action commit, an accepted manual score
  adjustment, a confirmed substitution, a rotation-only action, a set advance) leaves the
  past stack extended by exactly the snapshot of the state before the action and the
  future stack empty, whatever the future stack held before; so does every call of
  \<open>handleGameAction\<close>, through which the first four go.
\<close>

theorem every_commit_snapshots_first:
  "(history (handleGameAction nl su lu ns a) = history a @ [getCurrentState a]
      \<and> future (handleGameAction nl su lu ns a) = [])
   \<and> (selectedPos gv \<noteq> None \<and> selectedAction gv \<noteq> None \<longrightarrow>
        history (snd (handleResult result idNow tsNow (gv, a))) = history a @ [getCurrentState a]
        \<and> future (snd (handleResult result idNow tsNow (gv, a))) = [])
   \<and> (0 \<le> (if isMy then myScore a else opScore a) + delta \<longrightarrow>
        history (snd (handleScoreAdjust isMy delta idNow tsNow (gv, a))) = history a @ [getCurrentState a]
        \<and> future (snd (handleScoreAdjust isMy delta idNow tsNow (gv, a))) = [])
   \<and> (subTarget gv \<noteq> None \<and> trim (subNumber gv) \<noteq> [] \<longrightarrow>
        history (snd (handleSubConfirm (gv, a))) = history a @ [getCurrentState a]
        \<and> future (snd (handleSubConfirm (gv, a))) = [])
   \<and> (history (snd (handleRotation isMy (gv, a))) = history a @ [getCurrentState a]
        \<and> future (snd (handleRotation isMy (gv, a))) = [])
   \<and> (history (handleNextSet a) = history a @ [getCurrentState a]
        \<and> future (handleNextSet a) = [])"
proof -
  have r: "selectedPos gv \<noteq> None \<and> selectedAction gv \<noteq> None \<longrightarrow>
        history (snd (handleResult result idNow tsNow (gv, a))) = history a @ [getCurrentState a]
        \<and> future (snd (handleResult result idNow tsNow (gv, a))) = []"
    by (auto simp add: handleResult_def Let_def handleGameAction_stacks split: prod.splits)
  have s: "0 \<le> (if isMy then myScore a else opScore a) + delta \<longrightarrow>
        history (snd (handleScoreAdjust isMy delta idNow tsNow (gv, a))) = history a @ [getCurrentState a]
        \<and> future (snd (handleScoreAdjust isMy delta idNow tsNow (gv, a))) = []"
    by (simp add: handleScoreAdjust_def Let_def handleGameAction_stacks)
  have c: "subTarget gv \<noteq> None \<and> trim (subNumber gv) \<noteq> [] \<longrightarrow>
        history (snd (handleSubConfirm (gv, a))) = history a @ [getCurrentState a]
        \<and> future (snd (handleSubConfirm (gv, a))) = []"
    by (auto simp add: handleSubConfirm_def Let_def handleGameAction_stacks)
  have t: "history (snd (handleRotation isMy (gv, a))) = history a @ [getCurrentState a]
        \<and> future (snd (handleRotation isMy (gv, a))) = []"
    by (simp add: handleRotation_def Let_def handleGameAction_stacks)
  have n: "history (handleNextSet a) = history a @ [getCurrentState a]
        \<and> future (handleNextSet a) = []"
    by (simp add: handleNextSet_def pushHistory_def Let_def)
  from r s c t n show ?thesis by (simp add: handleGameAction_stacks)
qed

lemma undone_future: "future (handleUndo (handleNextSet exampleApp)) = [getCurrentState (handleNextSet exampleApp)]"
  by (simp add: handleUndo_def handleNextSet_def pushHistory_def Let_def restoreState_stacks exampleApp_fields)

theorem every_commit_snapshots_first_witness:
  "future (handleUndo (handleNextSet exampleApp)) \<noteq> []
   \<and> selectedPos (exampleView\<lparr>subTarget := Some (Me, Pos P2), subNumber := ''7''\<rparr>) \<noteq> None
   \<and> selectedAction (exampleView\<lparr>subTarget := Some (Me, Pos P2), subNumber := ''7''\<rparr>) \<noteq> None
   \<and> subTarget (exampleView\<lparr>subTarget := Some (Me, Pos P2), subNumber := ''7''\<rparr>) \<noteq> None
   \<and> trim (subNumber (exampleView\<lparr>subTarget := Some (Me, Pos P2), subNumber := ''7''\<rparr>)) \<noteq> []
   \<and> 0 \<le> myScore (handleUndo (handleNextSet exampleApp)) + (- 1)
   \<and> future (snd (handleResult POINT 1000 1001
        (exampleView\<lparr>subTarget := Some (Me, Pos P2), subNumber := ''7''\<rparr>,
         handleUndo (handleNextSet exampleApp)))) = []
   \<and> future (snd (handleScoreAdjust True (- 1) 1000 1001
        (exampleView\<lparr>subTarget := Some (Me, Pos P2), subNumber := ''7''\<rparr>,
         handleUndo (handleNextSet exampleApp)))) = []
   \<and> future (snd (handleSubConfirm
        (exampleView\<lparr>subTarget := Some (Me, Pos P2), subNumber := ''7''\<rparr>,
         handleUndo (handleNextSet exampleApp)))) = []
   \<and> future (snd (handleRotation True
        (exampleView\<lparr>subTarget := Some (Me, Pos P2), subNumber := ''7''\<rparr>,
         handleUndo (handleNextSet exampleApp)))) = []
   \<and> future (handleNextSet (handleUndo (handleNextSet exampleApp))) = []"
proof -
  have s: "myScore (handleUndo (handleNextSet exampleApp)) = 10"
    by (simp add: handleUndo_def handleNextSet_def pushHistory_def Let_def restoreState_def
        getCurrentState_def exampleApp_fields)
  have t: "trim ''7'' \<noteq> []" by (simp add: trim_def isWhiteSpace_def)
  from every_commit_snapshots_first [where gv = "exampleView\<lparr>subTarget := Some (Me, Pos P2), subNumber := ''7''\<rparr>"
      and a = "handleUndo (handleNextSet exampleApp)" and isMy = True and delta = "- 1"
      and result = POINT and idNow = 1000 and tsNow = 1001] s t
  show ?thesis by (simp add: undone_future exampleView_fields)
qed

section \<open>Scoring and side-out\<close>



text \<open>
  C5. A manual adjustment of -1 when the target team's score is 0 returns the state as
  it was: no entry, no snapshot, no field changed; so scores that were not negative stay
  so. A manual adjustment with a negative delta, accepted or not, leaves both lineups and
  the serving team.
\<close>

theorem manual_decrement_guard:
  "((if isMy then myScore a else opScore a) = 0 \<longrightarrow>
       handleScoreAdjust isMy (- 1) idNow tsNow (gv, a) = (gv, a))
   \<and> (0 \<le> myScore a \<and> 0 \<le> opScore a \<longrightarrow>
        0 \<le> myScore (snd (handleScoreAdjust isMy (- 1) idNow tsNow (gv, a)))
        \<and> 0 \<le> opScore (snd (handleScoreAdjust isMy (- 1) idNow tsNow (gv, a))))
   \<and> (delta < 0 \<longrightarrow>
        myLineup (snd (handleScoreAdjust isMy delta idNow tsNow (gv, a))) = myLineup a
        \<and> opLineup (snd (handleScoreAdjust isMy delta idNow tsNow (gv, a))) = opLineup a
        \<and> servingTeam (snd (handleScoreAdjust isMy delta idNow tsNow (gv, a))) = servingTeam a)"
  by (simp add: handleScoreAdjust_def Let_def handleGameAction_fields)

theorem manual_decrement_guard_witness:
  "myScore (exampleApp\<lparr>myScore := 0\<rparr>) = 0
   \<and> handleScoreAdjust True (- 1) 1000 1001 (exampleView, exampleApp\<lparr>myScore := 0\<rparr>)
       = (exampleView, exampleApp\<lparr>myScore := 0\<rparr>)
   \<and> (0 \<le> myScore exampleApp \<and> 0 \<le> opScore exampleApp)
   \<and> 0 \<le> myScore (snd (handleScoreAdjust False (- 1) 1000 1001 (exampleView, exampleApp)))
   \<and> 0 \<le> opScore (snd (handleScoreAdjust False (- 1) 1000 1001 (exampleView, exampleApp)))
   \<and> servingTeam (snd (handleScoreAdjust False (- 1) 1000 1001 (exampleView, exampleApp))) = Op
   \<and> myLineup (snd (handleScoreAdjust False (- 1) 1000 1001 (exampleView, exampleApp))) = exampleMyLineup
   \<and> opLineup (snd (handleScoreAdjust False (- 1) 1000 1001 (exampleView, exampleApp))) = exampleOpLineup"
  using manual_decrement_guard [where isMy = True and a = "exampleApp\<lparr>myScore := 0\<rparr>"
        and gv = exampleView and idNow = 1000 and tsNow = 1001]
    manual_decrement_guard [where isMy = False and a = exampleApp and delta = "- 1"
        and gv = exampleView and idNow = 1000 and tsNow = 1001]
  by (simp add: exampleApp_fields)



section \<open>Ledger entries\<close>

lemma handleScoreAdjust_logs:
  "0 \<le> (if isMy then myScore a else opScore a) + delta \<Longrightarrow>
   logs (snd (handleScoreAdjust isMy delta idNow tsNow (gv, a))) =
     logs a @
     [\<lparr>log_id = toString idNow, log_timestamp = tsNow, log_setNumber = currentSet a,
       log_myScore = (if isMy then myScore a + delta else myScore a),
       log_opScore = (if \<not> isMy then opScore a + delta else opScore a),
       log_playerNumber = [], log_position = Pos P1, log_action = ATTACK,
       log_quality = QUALITY_NORMAL,
       log_result = (if delta > 0 then POINT else NORMAL),
       log_startCoord = None, log_endCoord = None,
       log_note = Some (''Manual Adjust '' @ (if delta > 0 then ''+'' else []) @ toString delta),
       log_servingTeam =
         (if delta > 0 \<and> (if isMy then Me else Op) \<noteq> servingTeam a
          then (if isMy then Me else Op) else servingTeam a)\<rparr>]"
  by (simp add: handleScoreAdjust_def Let_def handleGameAction_fields)

lemma toString_one: "toString 1 = ''1''" "toString (- 1) = ''-1''"
  by (simp_all add: toString_def digitChar_def)

lemma handleResult_logs:
  "selectedPos gv = Some sp \<Longrightarrow> selectedAction gv = Some sa \<Longrightarrow>
   \<exists>e. logs (snd (handleResult result idNow tsNow (gv, a))) = logs a @ [e]
      \<and> log_note e = Some (if activeSide gv = Me then myName (teamConfig a) else opName (teamConfig a))
      \<and> log_servingTeam e = servingTeam (snd (handleResult result idNow tsNow (gv, a)))
      \<and> log_result e = result"
  by (cases result; cases "activeSide gv"; cases "servingTeam a")
     (simp_all add: handleResult_def Let_def handleGameAction_fields)

text \<open>
  C6, as stated, fails: the entry that a manual +1 for the own team appends has the action
  ATTACK, the result POINT and the position 1, and the statistics count it as an attack, a
  kill and a point of the opponent.
\<close>

theorem manual_entry_has_attack_identity:
  "map log_action (logs (snd (handleScoreAdjust True 1 1000 1001 (exampleView, exampleApp))))
     = [ATTACK]
   \<and> map log_result (logs (snd (handleScoreAdjust True 1 1000 1001 (exampleView, exampleApp))))
     = [POINT]
   \<and> map log_position (logs (snd (handleScoreAdjust True 1 1000 1001 (exampleView, exampleApp))))
     = [Pos P1]
   \<and> attackTotal (calculateStats (getTeamLogs exampleConfig
        (logs (snd (handleScoreAdjust True 1 1000 1001 (exampleView, exampleApp)))) Op)) = 1
   \<and> attackKills (calculateStats (getTeamLogs exampleConfig
        (logs (snd (handleScoreAdjust True 1 1000 1001 (exampleView, exampleApp)))) Op)) = 1
   \<and> totalPoints (calculateStats (getTeamLogs exampleConfig
        (logs (snd (handleScoreAdjust True 1 1000 1001 (exampleView, exampleApp)))) Op)) = 1"
  by (simp add: handleScoreAdjust_logs exampleApp_fields toString_one getTeamLogs_def
      exampleConfig_def calculateStats_def countEntry_def Let_def)

text \<open>
  C6, amended. Every accepted manual adjustment of +1 or -1 appends exactly one entry; its
  note is \<open>Manual Adjust +1\<close> or \<open>Manual Adjust -1\<close>, its player number is empty and it
  has no trajectory ends; its position, action and result fields hold 1, ATTACK and
  POINT (for +1) or NORMAL (for -1).
\<close>

theorem manual_adjust_entry:
  assumes "delta = 1 \<or> delta = - 1"
    and "0 \<le> (if isMy then myScore a else opScore a) + delta"
    and "a' = snd (handleScoreAdjust isMy delta idNow tsNow (gv, a))"
  shows "\<exists>e. logs a' = logs a @ [e]
           \<and> log_note e = Some (if delta = 1 then ''Manual Adjust +1'' else ''Manual Adjust -1'')
           \<and> log_playerNumber e = []
           \<and> log_startCoord e = None \<and> log_endCoord e = None
           \<and> log_position e = Pos P1
           \<and> log_action e = ATTACK
           \<and> log_result e = (if delta = 1 then POINT else NORMAL)"
  using assms(1) unfolding assms(3) handleScoreAdjust_logs [OF assms(2)]
  by (auto simp add: toString_one)

theorem manual_adjust_entry_witness:
  "0 \<le> opScore exampleApp + (- 1)
   \<and> (\<exists>e. logs (snd (handleScoreAdjust False (- 1) 1000 1001 (exampleView, exampleApp))) = [e]
          \<and> log_note e = Some ''Manual Adjust -1''
          \<and> log_playerNumber e = []
          \<and> log_startCoord e = None \<and> log_endCoord e = None
          \<and> log_position e = Pos P1 \<and> log_action e = ATTACK \<and> log_result e = NORMAL)"
  using manual_adjust_entry [where delta = "- 1" and isMy = False and a = exampleApp
      and gv = exampleView and idNow = 1000 and tsNow = 1001, OF _ _ refl]
  by (simp add: exampleApp_fields)

text \<open>
  C9, as stated, fails: with the opponent serving, a Point of the own team is recorded
  with the own team as serving team, not the team that served the rally.
\<close>

theorem entry_records_new_serving_team:
  "servingTeam exampleApp = Op
   \<and> selectedPos exampleView = Some (Pos P4) \<and> selectedAction exampleView = Some ATTACK
   \<and> map log_servingTeam (logs (snd (handleResult POINT 1000 1001 (exampleView, exampleApp)))) = [Me]"
  by (simp add: handleResult_def Let_def handleGameAction_fields exampleApp_fields exampleView_fields)

text \<open>
  C9, amended. The entry of a committed player action records the serving team as it is
  after the commit's side-out update: the acting team on Point, its opponent on Error,
  the unchanged serving team on Normal.
\<close>

theorem entry_serving_team_after_update:
  assumes "selectedPos gv = Some sp" and "selectedAction gv = Some sa"
    and "a' = snd (handleResult result idNow tsNow (gv, a))"
  shows "\<exists>e. logs a' = logs a @ [e]
           \<and> log_servingTeam e = servingTeam a'
           \<and> (result = POINT \<longrightarrow> log_servingTeam e = activeSide gv)
           \<and> (result = ERROR \<longrightarrow> log_servingTeam e = opponentOf (activeSide gv))
           \<and> (result = NORMAL \<longrightarrow> log_servingTeam e = servingTeam a)"
  using assms
  by (cases result; cases "activeSide gv"; cases "servingTeam a")
     (simp_all add: handleResult_def Let_def handleGameAction_fields)

theorem entry_serving_team_after_update_witness:
  "selectedPos exampleView = Some (Pos P4) \<and> selectedAction exampleView = Some ATTACK
   \<and> servingTeam exampleApp = Op
   \<and> servingTeam (snd (handleResult POINT 1000 1001 (exampleView, exampleApp))) = Me
   \<and> (\<exists>e. logs (snd (handleResult POINT 1000 1001 (exampleView, exampleApp))) = [e]
          \<and> log_servingTeam e = Me)
   \<and> (\<exists>e. logs (snd (handleResult NORMAL 1000 1001 (exampleView, exampleApp))) = [e]
          \<and> log_servingTeam e = Op)"
  using entry_serving_team_after_update [where gv = exampleView and a = exampleApp and result = POINT
      and idNow = 1000 and tsNow = 1001 and sp = "Pos P4" and sa = ATTACK, OF _ _ refl]
    entry_serving_team_after_update [where gv = exampleView and a = exampleApp and result = NORMAL
      and idNow = 1000 and tsNow = 1001 and sp = "Pos P4" and sa = ATTACK, OF _ _ refl]
  by (auto simp add: exampleView_fields exampleApp_fields)

section \<open>Team filter of the statistics\<close>

text \<open>
  C7, as stated, fails for the opponent: the entry of a manual adjustment, whose note is
  neither team name, is counted toward the opponent.
\<close>

theorem opponent_filter_takes_foreign_note:
  "map log_note (logs (snd (handleScoreAdjust True 1 1000 1001 (exampleView, exampleApp))))
     = [Some ''Manual Adjust +1'']
   \<and> myName exampleConfig = ''Home'' \<and> opName exampleConfig = ''Away''
   \<and> getTeamLogs exampleConfig
        (logs (snd (handleScoreAdjust True 1 1000 1001 (exampleView, exampleApp)))) Op
      = logs (snd (handleScoreAdjust True 1 1000 1001 (exampleView, exampleApp)))
   \<and> getTeamLogs exampleConfig
        (logs (snd (handleScoreAdjust True 1 1000 1001 (exampleView, exampleApp)))) Me = []"
  by (simp add: handleScoreAdjust_logs exampleApp_fields toString_one getTeamLogs_def exampleConfig_def)

text \<open>
  C7, amended. The statistics count an entry toward the own team if and only if its note
  equals the own team's display name, and toward the opponent if and only if it does not;
  a committed player action sets the note to the acting team's display name.
\<close>

theorem team_filter_is_binary:
  "getTeamLogs config ls Me = filter (\<lambda>e. log_note e = Some (myName config)) ls
   \<and> getTeamLogs config ls Op = filter (\<lambda>e. log_note e \<noteq> Some (myName config)) ls
   \<and> (selectedPos gv \<noteq> None \<and> selectedAction gv \<noteq> None \<longrightarrow>
        (\<exists>e. logs (snd (handleResult result idNow tsNow (gv, a))) = logs a @ [e]
           \<and> log_note e = Some (if activeSide gv = Me then myName (teamConfig a)
                                 else opName (teamConfig a))))"
proof -
  have f: "getTeamLogs config ls Me = filter (\<lambda>e. log_note e = Some (myName config)) ls"
    "getTeamLogs config ls Op = filter (\<lambda>e. log_note e \<noteq> Some (myName config)) ls"
    by (simp_all add: getTeamLogs_def Let_def)
  have n: "selectedPos gv \<noteq> None \<and> selectedAction gv \<noteq> None \<longrightarrow>
        (\<exists>e. logs (snd (handleResult result idNow tsNow (gv, a))) = logs a @ [e]
           \<and> log_note e = Some (if activeSide gv = Me then myName (teamConfig a)
                                 else opName (teamConfig a)))"
    using handleResult_logs [of gv _ _ result idNow tsNow a] by blast
  from f n show ?thesis by simp
qed

theorem team_filter_is_binary_witness:
  "selectedPos exampleView \<noteq> None \<and> selectedAction exampleView \<noteq> None
   \<and> (\<exists>e. logs (snd (handleResult POINT 1000 1001 (exampleView, exampleApp))) = [e]
          \<and> log_note e = Some ''Home''
          \<and> getTeamLogs exampleConfig [e] Me = [e]
          \<and> getTeamLogs exampleConfig [e] Op = [])"
  using team_filter_is_binary [where gv = exampleView and a = exampleApp and result = POINT
      and idNow = 1000 and tsNow = 1001 and config = exampleConfig]
  by (auto simp add: exampleView_fields exampleApp_fields exampleConfig_def)

section \<open>Jersey input on the setup screen\<close>

lemma sanitizeInput_Some:
  "sanitizeInput v = Some s \<Longrightarrow> validJersey s"
proof -
  assume a: "sanitizeInput v = Some s"
  let ?d = "filter isDigit v"
  let ?n = "if length ?d > 2 then take 2 ?d else ?d"
  from a have s: "s = ?n" and z: "\<not> (length ?n > 0 \<and> hd ?n = CHR ''0'')"
    by (auto simp add: sanitizeInput_def Let_def split: if_splits)
  have l: "length ?n \<le> 2" by simp
  have "set ?n \<subseteq> set ?d" by (auto dest: in_set_takeD)
  then have d: "list_all isDigit ?n" by (auto simp add: list_all_iff)
  from z have "?n = [] \<or> hd ?n \<noteq> CHR ''0''" by auto
  with l d show ?thesis unfolding s validJersey_def by blast
qed

lemma sanitizeInput_None:
  "sanitizeInput v = None \<longleftrightarrow> (filter isDigit v \<noteq> [] \<and> hd (filter isDigit v) = CHR ''0'')"
  by (cases "filter isDigit v") (auto simp add: sanitizeInput_def Let_def)

lemma lineup_get_set: "lineup_get (lineup_set l p v) p = v"
  by (cases p) simp_all

text \<open>
  C10, as stated, fails: a substitution during the match stores the jersey \<open>007\<close>; back
  on the setup screen an edit of that slot to \<open>0\<close> is dropped, and the stored string is
  still \<open>007\<close>.
\<close>

theorem dropped_edit_keeps_invalid_jersey:
  "trim ''007'' \<noteq> []
   \<and> myLineup (snd (handleSubConfirm
        (exampleView\<lparr>subTarget := Some (Me, Pos P1), subNumber := ''007''\<rparr>, exampleApp)))
      = exampleMyLineup\<lparr>pos1 := ''007''\<rparr>
   \<and> sanitizeInput ''0'' = None
   \<and> lineup_get (sv_myLineup (handlePlayerChange True P1 ''0''
        (mountSetupView (snd (handleSubConfirm
           (exampleView\<lparr>subTarget := Some (Me, Pos P1), subNumber := ''007''\<rparr>, exampleApp)))))) P1
      = ''007''
   \<and> \<not> validJersey ''007''"
proof -
  have t: "trim ''007'' \<noteq> []" by (simp add: trim_def isWhiteSpace_def)
  have m: "myLineup (snd (handleSubConfirm
        (exampleView\<lparr>subTarget := Some (Me, Pos P1), subNumber := ''007''\<rparr>, exampleApp)))
      = exampleMyLineup\<lparr>pos1 := ''007''\<rparr>"
    using t by (simp add: handleSubConfirm_def Let_def handleGameAction_fields exampleApp_fields)
  have z: "sanitizeInput ''0'' = None" by (simp add: sanitizeInput_def isDigit_def)
  have v: "\<not> validJersey ''007''" by (simp add: validJersey_def)
  from t m z v show ?thesis
    by (simp add: handlePlayerChange_def mountSetupView_def)
qed

text \<open>
  C10, amended. An edit of a lineup slot or of a libero is dropped exactly when its
  digit-filtered value starts with 0, and then the setup state is unchanged; otherwise the
  stored string becomes the digit-filtered value cut to two characters, which is empty or
  one to two decimal digits not starting with 0. So the stored string has that form after
  the edit whenever it had it before.
\<close>

theorem jersey_edit_sanitized:
  "(sanitizeInput v = None \<longleftrightarrow> (filter isDigit v \<noteq> [] \<and> hd (filter isDigit v) = CHR ''0''))
   \<and> (sanitizeInput v = None \<longrightarrow>
         handlePlayerChange isMy pos v sv = sv \<and> handleLiberoChange isMy v sv = sv)
   \<and> (\<forall>s. sanitizeInput v = Some s \<longrightarrow>
         validJersey s
         \<and> lineup_get (if isMy then sv_myLineup (handlePlayerChange isMy pos v sv)
                        else sv_opLineup (handlePlayerChange isMy pos v sv)) pos = s
         \<and> (if isMy then sv_myLibero (handleLiberoChange isMy v sv)
             else sv_opLibero (handleLiberoChange isMy v sv)) = s)
   \<and> (validJersey (lineup_get (if isMy then sv_myLineup sv else sv_opLineup sv) pos) \<longrightarrow>
         validJersey (lineup_get (if isMy then sv_myLineup (handlePlayerChange isMy pos v sv)
                                  else sv_opLineup (handlePlayerChange isMy pos v sv)) pos))
   \<and> (validJersey (if isMy then sv_myLibero sv else sv_opLibero sv) \<longrightarrow>
         validJersey (if isMy then sv_myLibero (handleLiberoChange isMy v sv)
                      else sv_opLibero (handleLiberoChange isMy v sv)))"
proof (cases "sanitizeInput v")
  case None
  then show ?thesis
    using sanitizeInput_None [of v]
    by (simp add: handlePlayerChange_def handleLiberoChange_def)
next
  case (Some s)
  then have "validJersey s" by (rule sanitizeInput_Some)
  with Some show ?thesis
    using sanitizeInput_None [of v]
    by (simp add: handlePlayerChange_def handleLiberoChange_def lineup_get_set)
qed

theorem jersey_edit_sanitized_witness:
  "sanitizeInput ''a1b2c3'' = Some ''12''
   \<and> validJersey ''12''
   \<and> lineup_get (sv_myLineup (handlePlayerChange True P3 ''a1b2c3'' (mountSetupView exampleApp))) P3 = ''12''
   \<and> sv_myLibero (handleLiberoChange True ''a1b2c3'' (mountSetupView exampleApp)) = ''12''
   \<and> sanitizeInput ''x07'' = None
   \<and> handlePlayerChange False P3 ''x07'' (mountSetupView exampleApp) = mountSetupView exampleApp
   \<and> validJersey (lineup_get (sv_opLineup (mountSetupView exampleApp)) P3)
   \<and> validJersey (lineup_get (sv_opLineup (handlePlayerChange False P3 ''x07'' (mountSetupView exampleApp))) P3)"
proof -
  have a: "sanitizeInput ''a1b2c3'' = Some ''12''" by (simp add: sanitizeInput_def isDigit_def)
  have b: "sanitizeInput ''x07'' = None" by (simp add: sanitizeInput_def isDigit_def)
  have c: "validJersey (lineup_get (sv_opLineup (mountSetupView exampleApp)) P3)"
    by (simp add: mountSetupView_def exampleApp_fields exampleOpLineup_def validJersey_def isDigit_def)
  from jersey_edit_sanitized [where v = "''a1b2c3''" and isMy = True and pos = P3
        and sv = "mountSetupView exampleApp"]
    jersey_edit_sanitized [where v = "''x07''" and isMy = False and pos = P3
        and sv = "mountSetupView exampleApp"] a b c
  show ?thesis by simp
qed

end
